theory Spec2Isabelle
  imports Complex_Main
begin

section \<open>Strings\<close>

text \<open>
  A Python \<open>str\<close> is a sequence of Unicode code points and a JavaScript string a
  sequence of UTF-16 code units; both are modelled as lists of natural numbers, so that
  \<open>len\<close> and \<open>.length\<close> are \<open>length\<close>. A literal of the source is written
  \<open>u ''...''\<close> when it is ASCII and as the list of its code points otherwise.

  Case conversion and character classes follow the ASCII tables: \<open>lower\<close> and
  \<open>toLowerCase\<close> map \<open>A\<close>..\<open>Z\<close> to \<open>a\<close>..\<open>z\<close> and leave every other code point as it
  is, \<open>isupper\<close> counts ASCII letters as the cased characters, and \<open>\d\<close> is \<open>0\<close>..\<open>9\<close>.
  Python floats are modelled as exact rationals.
\<close>

type_synonym ustring = "nat list"

definition u :: "string \<Rightarrow> ustring" where
  "u s = map of_char s"

definition is_ascii_upper :: "nat \<Rightarrow> bool" where
  "is_ascii_upper c = (65 \<le> c \<and> c \<le> 90)"

definition is_ascii_lower :: "nat \<Rightarrow> bool" where
  "is_ascii_lower c = (97 \<le> c \<and> c \<le> 122)"

definition is_alpha :: "nat \<Rightarrow> bool" where
  "is_alpha c = (is_ascii_upper c \<or> is_ascii_lower c)"

definition is_digit :: "nat \<Rightarrow> bool" where
  "is_digit c = (48 \<le> c \<and> c \<le> 57)"

definition lower_cp :: "nat \<Rightarrow> nat" where
  "lower_cp c = (if is_ascii_upper c then c + 32 else c)"

text \<open>\<open>s.lower()\<close>, \<open>s.toLowerCase()\<close>\<close>
definition str_lower :: "ustring \<Rightarrow> ustring" where
  "str_lower s = map lower_cp s"

text \<open>\<open>t.startswith(p)\<close>, \<open>t.startsWith(p)\<close>\<close>
fun startswith :: "ustring \<Rightarrow> ustring \<Rightarrow> bool" where
  "startswith t [] = True"
| "startswith [] (p # ps) = False"
| "startswith (c # cs) (p # ps) = (c = p \<and> startswith cs ps)"

text \<open>\<open>p in t\<close>, \<open>t.includes(p)\<close>\<close>
fun str_in :: "ustring \<Rightarrow> ustring \<Rightarrow> bool" where
  "str_in p [] = (p = [])"
| "str_in p (c # cs) = (startswith (c # cs) p \<or> str_in p cs)"

text \<open>\<open>t.split(sep)\<close> for a separator of one character: never the empty list.\<close>
fun str_split :: "nat \<Rightarrow> ustring \<Rightarrow> ustring list" where
  "str_split sep [] = [[]]"
| "str_split sep (c # cs) =
     (if c = sep then [] # str_split sep cs
      else (case str_split sep cs of
              [] \<Rightarrow> [[c]]
            | w # ws \<Rightarrow> (c # w) # ws))"

text \<open>The characters \<open>str.isspace\<close> accepts, which \<open>t.split()\<close> splits at.\<close>
definition py_isspace :: "nat \<Rightarrow> bool" where
  "py_isspace c =
     ((9 \<le> c \<and> c \<le> 13) \<or> (28 \<le> c \<and> c \<le> 32) \<or> c = 133 \<or> c = 160 \<or> c = 5760 \<or>
      (8192 \<le> c \<and> c \<le> 8202) \<or> c = 8232 \<or> c = 8233 \<or> c = 8239 \<or> c = 8287 \<or>
      c = 12288)"

fun split_ws_from :: "ustring \<Rightarrow> ustring \<Rightarrow> ustring list" where
  "split_ws_from cur [] = (if cur = [] then [] else [rev cur])"
| "split_ws_from cur (c # cs) =
     (if py_isspace c
      then (if cur = [] then split_ws_from [] cs else rev cur # split_ws_from [] cs)
      else split_ws_from (c # cur) cs)"

text \<open>\<open>t.split()\<close>: the maximal runs of characters that are not whitespace.\<close>
definition str_split_ws :: "ustring \<Rightarrow> ustring list" where
  "str_split_ws t = split_ws_from [] t"

text \<open>\<open>t.count(p)\<close>: the occurrences of \<open>p\<close>, counted from the left without overlap.\<close>
function str_count :: "ustring \<Rightarrow> ustring \<Rightarrow> nat" where
  "str_count p t =
     (if p = [] then length t + 1
      else if t = [] then 0
      else if startswith t p then 1 + str_count p (drop (length p) t)
      else str_count p (tl t))"
  by pat_completeness auto
termination
  by (relation "measure (\<lambda>(p, t). length t)") auto

text \<open>\<open>s.isupper()\<close>: some cased character, and no lower-case one.\<close>
definition str_isupper :: "ustring \<Rightarrow> bool" where
  "str_isupper s = (list_ex is_ascii_upper s \<and> \<not> list_ex is_ascii_lower s)"

text \<open>\<open>sep.join(xs)\<close>\<close>
fun str_join :: "ustring \<Rightarrow> ustring list \<Rightarrow> ustring" where
  "str_join sep [] = []"
| "str_join sep [x] = x"
| "str_join sep (x # y # ys) = x @ sep @ str_join sep (y # ys)"

text \<open>\<open>str(n)\<close> of a natural number, as an f-string prints it.\<close>
fun str_of_nat :: "nat \<Rightarrow> ustring" where
  "str_of_nat n = (if n < 10 then [48 + n] else str_of_nat (n div 10) @ [48 + n mod 10])"

declare str_of_nat.simps [simp del]
declare str_count.simps [simp del]

section \<open>Regular expressions of the scorer\<close>

text \<open>
  \<open>re.findall(r'\d+[\%\+\-]?|\$[\d\.,]+|[\d\.]+ [A-Za-z]+', text)\<close>: one attempt at the
  head of the text gives the text after the match. The alternatives are tried in order
  and the repetitions are greedy; a shorter repetition never helps, since the character
  that follows a maximal run is outside the class of the run.
\<close>

definition is_dollar_body :: "nat \<Rightarrow> bool" where
  "is_dollar_body c = (is_digit c \<or> c = 46 \<or> c = 44)"

definition is_digit_or_dot :: "nat \<Rightarrow> bool" where
  "is_digit_or_dot c = (is_digit c \<or> c = 46)"

definition match_metric :: "ustring \<Rightarrow> ustring option" where
  "match_metric t =
     (case t of
        [] \<Rightarrow> None
      | c # cs \<Rightarrow>
          if is_digit c then
            (case dropWhile is_digit cs of
               [] \<Rightarrow> Some []
             | d # ds \<Rightarrow> if d = 37 \<or> d = 43 \<or> d = 45 then Some ds else Some (d # ds))
          else if c = 36 \<and> cs \<noteq> [] \<and> is_dollar_body (hd cs) then
            Some (dropWhile is_dollar_body cs)
          else if is_digit_or_dot c then
            (case dropWhile is_digit_or_dot cs of
               sp # a # as \<Rightarrow>
                 if sp = 32 \<and> is_alpha a then Some (dropWhile is_alpha as) else None
             | _ \<Rightarrow> None)
          else None)"

lemma length_dropWhile_le: "length (dropWhile P xs) \<le> length xs"
  by (induction xs) auto

lemma digits_tail_shorter:
  assumes "(case xs of [] \<Rightarrow> Some []
            | d # ds \<Rightarrow> if d = 37 \<or> d = 43 \<or> d = 45 then Some ds else Some (d # ds)) = Some r"
  shows "length r \<le> length (xs :: ustring)"
  using assms by (cases xs) (auto split: if_splits)

lemma words_tail_shorter:
  assumes "(case xs of sp # a # as \<Rightarrow>
              if sp = 32 \<and> is_alpha a then Some (dropWhile is_alpha as) else None
            | _ \<Rightarrow> None) = Some r"
  shows "length r \<le> length (xs :: ustring)"
proof -
  from assms obtain sp a as where xs: "xs = sp # a # as" and r: "r = dropWhile is_alpha as"
    by (auto split: list.splits if_splits)
  have "length r \<le> length as"
    unfolding r by (rule length_dropWhile_le)
  with xs show ?thesis by simp
qed

lemma match_metric_shorter:
  assumes "match_metric t = Some r"
  shows "length r < length t"
proof (cases t)
  case Nil
  with assms show ?thesis by (simp add: match_metric_def)
next
  case (Cons c cs)
  have d: "length (dropWhile is_digit cs) \<le> length cs"
    and b: "length (dropWhile is_dollar_body cs) \<le> length cs"
    and dd: "length (dropWhile is_digit_or_dot cs) \<le> length cs"
    by (rule length_dropWhile_le)+
  show ?thesis
  proof (cases "is_digit c")
    case True
    with assms Cons have "length r \<le> length (dropWhile is_digit cs)"
      by (intro digits_tail_shorter) (simp add: match_metric_def)
    with d Cons show ?thesis by simp
  next
    case nd: False
    show ?thesis
    proof (cases "c = 36 \<and> cs \<noteq> [] \<and> is_dollar_body (hd cs)")
      case True
      with assms Cons nd b show ?thesis
        by (auto simp: match_metric_def)
    next
      case False
      with assms Cons nd have "length r \<le> length (dropWhile is_digit_or_dot cs)"
        by (intro words_tail_shorter) (auto simp: match_metric_def split: if_splits)
      with dd Cons show ?thesis by simp
    qed
  qed
qed

text \<open>\<open>len(re.findall(..., text))\<close>: the scan goes on after each match, and one
  character further where nothing matches.\<close>
function count_metrics :: "ustring \<Rightarrow> nat" where
  "count_metrics t =
     (if t = [] then 0
      else (case match_metric t of
              None \<Rightarrow> count_metrics (tl t)
            | Some r \<Rightarrow> 1 + count_metrics r))"
  by pat_completeness auto
termination
  by (relation "measure length") (auto dest: match_metric_shorter)

declare count_metrics.simps [simp del]

text \<open>\<open>\d{n}\<close> at the head of the text.\<close>
fun take_digits :: "nat \<Rightarrow> ustring \<Rightarrow> ustring option" where
  "take_digits 0 t = Some t"
| "take_digits (Suc n) [] = None"
| "take_digits (Suc n) (c # cs) = (if is_digit c then take_digits n cs else None)"

text \<open>\<open>[-\.]?\<close> at the head of the text.\<close>
definition skip_sep :: "ustring \<Rightarrow> ustring" where
  "skip_sep t = (case t of [] \<Rightarrow> [] | c # cs \<Rightarrow> if c = 45 \<or> c = 46 then cs else c # cs)"

definition match_phone :: "ustring \<Rightarrow> bool" where
  "match_phone t =
     (case take_digits 3 t of
        None \<Rightarrow> False
      | Some r1 \<Rightarrow>
          (case take_digits 3 (skip_sep r1) of
             None \<Rightarrow> False
           | Some r2 \<Rightarrow> take_digits 4 (skip_sep r2) \<noteq> None))"

text \<open>\<open>re.search(r'\d{3}[-\.]?\d{3}[-\.]?\d{4}', text) is not None\<close>\<close>
fun search_phone :: "ustring \<Rightarrow> bool" where
  "search_phone [] = False"
| "search_phone (c # cs) = (match_phone (c # cs) \<or> search_phone cs)"

section \<open>The ATS scorer (backend/services/ats\_scorer.py)\<close>

text \<open>The class constants. \<open>STRONG_VERBS\<close> and \<open>WEAK_VERBS\<close> are Python sets; the code
  only asks whether some member occurs in a line, so their order does not matter.\<close>

definition STRONG_VERBS :: "ustring list" where
  "STRONG_VERBS = map u
     [''led'', ''designed'', ''developed'', ''implemented'', ''created'', ''built'',
      ''engineered'', ''architected'', ''achieved'', ''delivered'', ''launched'',
      ''spearheaded'', ''transformed'', ''pioneered'', ''revolutionized'',
      ''optimized'', ''accelerated'', ''improved'', ''enhanced'', ''maximized'',
      ''initiated'', ''established'', ''founded'', ''generated'', ''increased'',
      ''reduced'', ''decreased'', ''managed'', ''directed'', ''oversaw'']"

definition WEAK_VERBS :: "ustring list" where
  "WEAK_VERBS = map u
     [''worked'', ''helped'', ''did'', ''made'', ''responsible'', ''involved'',
      ''participated'', ''assisted'', ''contributed'', ''collaborated'']"

text \<open>The code points of the eight glyphs: rightwards arrow, bullet, black diamond,
  black star, check mark, copyright, trade mark, registered.\<close>
definition ATS_BREAKING_CHARS :: "ustring list" where
  "ATS_BREAKING_CHARS = [[8594], [8226], [9670], [9733], [10003], [169], [8482], [174]]"

definition TECHNICAL_KEYWORDS :: "ustring list" where
  "TECHNICAL_KEYWORDS = map u
     [''python'', ''java'', ''javascript'', ''c++'', ''sql'', ''html'', ''css'',
      ''react'', ''angular'', ''vue'', ''fastapi'', ''django'', ''flask'',
      ''aws'', ''gcp'', ''azure'', ''docker'', ''kubernetes'', ''jenkins'',
      ''git'', ''github'', ''gitlab'', ''rest'', ''api'', ''microservices'',
      ''agile'', ''scrum'', ''jira'', ''linux'', ''windows'', ''mac'']"

subsection \<open>\<open>_score_formatting\<close>\<close>

text \<open>124 is the pipe, 9472 the box-drawing horizontal line, 8203 the zero-width space,
  65279 the byte-order mark, 10 the line feed.\<close>
definition score_formatting :: "ustring \<Rightarrow> rat \<times> ustring list" where
  "score_formatting text =
     (let score = 100;
          feedback = [];
          breaking_chars_found = filter (\<lambda>char. str_in char text) ATS_BREAKING_CHARS;
          (score, feedback) =
            (if breaking_chars_found \<noteq> []
             then (score - 10,
                   feedback @ [u ''Remove special characters: '' @
                               str_join (u '', '') breaking_chars_found])
             else (score, feedback));
          (score, feedback) =
            (if str_in [124] text \<or> str_in [9472] text
             then (score - 15,
                   feedback @ [u ''Tables detected - ATS may not parse correctly. Use text format instead.''])
             else (score, feedback));
          (score, feedback) =
            (if str_in [8203] text \<or> str_in [65279] text
             then (score - 10, feedback @ [u ''Hidden characters detected. Clean up encoding.''])
             else (score, feedback));
          lines = str_split 10 text;
          (score, feedback) =
            (if length lines < 10
             then (score - 5, feedback @ [u ''Resume seems too short. Add more content.''])
             else (score, feedback));
          (score, feedback) =
            (if length lines > 100
             then (score - 5,
                   feedback @ [u ''Resume seems too long. Consider condensing to 1-2 pages.''])
             else (score, feedback));
          (score, feedback) =
            (if str_in (u ''  '') text
             then (score - 3, feedback @ [u ''Remove extra spaces between words.''])
             else (score, feedback))
      in (max 0 score, feedback))"

subsection \<open>\<open>_extract_keywords\<close> and \<open>_score_keywords\<close>\<close>

definition extract_keywords :: "ustring \<Rightarrow> ustring list" where
  "extract_keywords text =
     (let words = str_split_ws text;
          stopwords = map u [''the'', ''a'', ''an'', ''and'', ''or'', ''in'', ''at'', ''to'',
                             ''for'', ''of'', ''is'', ''was'', ''are'']
      in filter (\<lambda>w. length w > 3 \<and> w \<notin> set stopwords) words)"

text \<open>The dictionary \<open>{"matched": list(set(...)), "missing": list(set(...))}\<close>. The order
  of \<open>list(set(...))\<close> is the hash order of the run, so the values are kept as sets.\<close>
record keywords_data =
  matched :: "ustring set"
  missing :: "ustring set"

definition score_keywords :: "ustring \<Rightarrow> ustring \<Rightarrow> rat \<times> keywords_data" where
  "score_keywords resume_text job_description =
     (let score = 100;
          resume_lower = str_lower resume_text
      in if job_description \<noteq> [] then
           (let jd_lower = str_lower job_description;
                jd_keywords = extract_keywords jd_lower;
                resume_keywords = extract_keywords resume_lower;
                matched_keywords = filter (\<lambda>keyword. keyword \<in> set resume_keywords) jd_keywords;
                missing_keywords = filter (\<lambda>keyword. keyword \<notin> set resume_keywords) jd_keywords;
                match_rate = of_nat (length matched_keywords) / of_nat (max (length jd_keywords) 1);
                score = match_rate * 100;
                score = (if match_rate < 3 / 10 then score - 30
                         else if match_rate < 5 / 10 then score - 15
                         else if match_rate < 7 / 10 then score - 5
                         else score)
            in (max 0 score,
                \<lparr>matched = set matched_keywords, missing = set missing_keywords\<rparr>))
         else
           (let found_keywords = filter (\<lambda>keyword. str_in keyword resume_lower) TECHNICAL_KEYWORDS;
                score = (if length found_keywords = 0 then score - 30
                         else if length found_keywords < 3 then score - 15
                         else score)
            in (max 0 score, \<lparr>matched = set found_keywords, missing = {}\<rparr>)))"

subsection \<open>\<open>_score_impact\<close>\<close>

text \<open>The loop over the lines, with its three counters.\<close>
fun count_verbs :: "ustring list \<Rightarrow> nat \<times> nat \<times> nat \<Rightarrow> nat \<times> nat \<times> nat" where
  "count_verbs [] counts = counts"
| "count_verbs (line # rest) (strong_verb_count, weak_verb_count, no_verb_count) =
     (let line_lower = str_lower line
      in if length line < 5 \<or> str_isupper line
         then count_verbs rest (strong_verb_count, weak_verb_count, no_verb_count)
         else
           (let has_strong = list_ex (\<lambda>verb. str_in verb line_lower) STRONG_VERBS;
                has_weak = list_ex (\<lambda>verb. str_in verb line_lower) WEAK_VERBS
            in if has_strong
               then count_verbs rest (strong_verb_count + 1, weak_verb_count, no_verb_count)
               else if has_weak
               then count_verbs rest (strong_verb_count, weak_verb_count + 1, no_verb_count)
               else count_verbs rest (strong_verb_count, weak_verb_count, no_verb_count + 1)))"

definition score_impact :: "ustring \<Rightarrow> rat \<times> ustring list" where
  "score_impact text =
     (let score = 100;
          feedback = [];
          lines = str_split 10 text;
          (strong_verb_count, weak_verb_count, no_verb_count) = count_verbs lines (0, 0, 0);
          total_bullets = strong_verb_count + weak_verb_count + no_verb_count;
          (score, feedback) =
            (if total_bullets > 0
             then
               (let strong_percent = (of_nat strong_verb_count / of_nat total_bullets) * 100;
                    weak_percent = (of_nat weak_verb_count / of_nat total_bullets) * 100;
                    score = (strong_percent * (5 / 10)) + ((100 - weak_percent) * (5 / 10))
                in if weak_percent > 50
                   then (score,
                         feedback @ [u ''Weak verbs detected ('' @ str_of_nat weak_verb_count @
                           u '' instances). Replace 'worked', 'helped', 'involved' with stronger verbs like 'led', 'designed', 'achieved'.''])
                   else (score, feedback))
             else (score, feedback));
          metrics = count_metrics text;
          (score, feedback) =
            (if metrics < 3
             then (score - 20,
                   feedback @ [u ''Add quantifiable metrics. Include numbers: percentages, dollars, scale, timeline.''])
             else (score, feedback));
          passive_indicators = map u [''was '', ''were '', ''been '', ''is '', ''are ''];
          passive_count = sum_list (map (\<lambda>indicator. str_count indicator text) passive_indicators);
          (score, feedback) =
            (if passive_count > 5
             then (score - 10,
                   feedback @ [u ''Reduce passive voice. Prefer active voice (e.g., 'Led' vs 'Was responsible for').''])
             else (score, feedback))
      in (max 0 score, feedback))"

subsection \<open>\<open>_score_content\<close>\<close>

text \<open>39 is the apostrophe of the f-string, 64 the at sign.\<close>
definition score_content :: "ustring \<Rightarrow> rat \<times> ustring list" where
  "score_content text =
     (let score = 100;
          feedback = [];
          sections_required = map u [''experience'', ''education'', ''skills''];
          sections_found = [];
          text_lower = str_lower text;
          sections_found =
            (if str_in (u ''experience'') text_lower \<or> str_in (u ''employment'') text_lower
             then sections_found @ [u ''experience''] else sections_found);
          sections_found =
            (if str_in (u ''education'') text_lower \<or> str_in (u ''degree'') text_lower
             then sections_found @ [u ''education''] else sections_found);
          sections_found =
            (if str_in (u ''skills'') text_lower \<or> str_in (u ''technical'') text_lower
             then sections_found @ [u ''skills''] else sections_found);
          (score, feedback) =
            fold (\<lambda>section (score, feedback).
                    if section \<notin> set sections_found
                    then (score - 20,
                          feedback @ [u ''Missing '' @ [39] @ section @ [39] @
                                      u '' section. Add it to improve completeness.''])
                    else (score, feedback))
                 sections_required (score, feedback);
          (score, feedback) =
            (if str_in (u ''summary'') text_lower \<or> str_in (u ''objective'') text_lower \<or>
                str_in (u ''profile'') text_lower
             then (score + 5, feedback)
             else (score,
                   feedback @ [u ''Consider adding a professional summary (2-3 sentences).'']));
          (score, feedback) =
            (if \<not> str_in [64] text
             then (score - 10,
                   feedback @ [u ''Missing email address. Add your contact information.''])
             else (score, feedback));
          feedback =
            (if \<not> search_phone text
             then feedback @ [u ''Consider adding phone number for completeness.'']
             else feedback)
      in (max 0 score, feedback))"

subsection \<open>\<open>_score_structure\<close>\<close>

text \<open>8226 is the bullet, 45 the hyphen, 42 the asterisk.\<close>
definition score_structure :: "ustring \<Rightarrow> rat \<times> ustring list" where
  "score_structure text =
     (let score = 100;
          feedback = [];
          lines = str_split 10 text;
          headings = filter (\<lambda>line. str_isupper line \<and> length line < 30) lines;
          (score, feedback) =
            (if length headings < 3
             then (score - 15,
                   feedback @ [u ''Use clear section headings in CAPS (e.g., EXPERIENCE, EDUCATION, SKILLS).''])
             else (score, feedback));
          long_lines = filter (\<lambda>line. length line > 100) lines;
          (score, feedback) =
            (if (of_nat (length long_lines) :: rat) > of_nat (length lines) * (3 / 10)
             then (score - 10,
                   feedback @ [u ''Some lines are very long. Break them into smaller chunks for readability.''])
             else (score, feedback));
          bullet_count = str_count [8226] text + str_count [45] text + str_count [42] text;
          (score, feedback) =
            (if bullet_count = 0
             then (score - 20,
                   feedback @ [u ''Use bullet points ('' @ [8226] @
                               u '') to structure information. Improves readability and ATS parsing.''])
             else (score, feedback));
          word_count = length (str_split_ws text);
          (score, feedback) =
            (if word_count < 200
             then (score - 10, feedback @ [u ''Resume seems short. Add more relevant content.''])
             else if word_count > 1500
             then (score - 10,
                   feedback @ [u ''Resume seems long. Aim for 1-2 pages (200-1000 words).''])
             else (score, feedback))
      in (max 0 score, feedback))"

section \<open>The file-upload scorer (netlify/functions/score-file.js)\<close>

text \<open>The object \<open>{ score, feedback }\<close>, which is also the shape of a dimension's entry
  in the Python report.\<close>
record 'n scored =
  score :: 'n
  feedback :: "ustring list"

text \<open>The white space and line terminators that \<open>String.prototype.trim\<close> strips.\<close>
definition js_isspace :: "nat \<Rightarrow> bool" where
  "js_isspace c =
     ((9 \<le> c \<and> c \<le> 13) \<or> c = 32 \<or> c = 160 \<or> c = 5760 \<or> (8192 \<le> c \<and> c \<le> 8202) \<or>
      c = 8232 \<or> c = 8233 \<or> c = 8239 \<or> c = 8287 \<or> c = 12288 \<or> c = 65279)"

definition str_trim :: "ustring \<Rightarrow> ustring" where
  "str_trim s = rev (dropWhile js_isspace (rev (dropWhile js_isspace s)))"

text \<open>The second bullet prefix is the three characters the file holds: a with circumflex
  (226), the euro sign (8364) and the cent sign (162).\<close>
definition scoreFromText :: "ustring \<Rightarrow> int scored" where
  "scoreFromText text =
     (let feedback = [];
          score = 50;
          normalized = str_lower text;
          (score, feedback) =
            (if length text \<ge> 800 then (score + 10, feedback)
             else (score, feedback @ [u ''Add more detail (aim for 350-500 words).'']));
          (score, feedback) =
            (if str_in (u ''skills'') normalized then (score + 8, feedback)
             else (score, feedback @ [u ''Include a dedicated skills section.'']));
          (score, feedback) =
            (if list_ex (\<lambda>keyword. str_in keyword normalized)
                  (map u [''experience'', ''work history'', ''employment''])
             then (score + 12, feedback)
             else (score,
                   feedback @ [u ''Add an experience section with impact-focused bullets.'']));
          (score, feedback) =
            (if list_ex (\<lambda>keyword. str_in keyword normalized)
                  (map u [''education'', ''degree'', ''university'', ''college''])
             then (score + 6, feedback)
             else (score, feedback @ [u ''Add education details.'']));
          bulletLines =
            filter (\<lambda>line. startswith line [45] \<or> startswith line [226, 8364, 162])
              (map str_trim (str_split 10 text));
          (score, feedback) =
            (if length bulletLines \<ge> 5 then (score + 10, feedback)
             else (score, feedback @ [u ''Use more bullet points to highlight achievements.'']));
          (score, feedback) =
            (if str_in [64] normalized then (score + 5, feedback)
             else (score, feedback @ [u ''Add an email address for contact info.'']));
          score = min score 100;
          feedback =
            (if feedback = []
             then feedback @ [u ''Resume looks solid. Customize it for the target role and keywords.'']
             else feedback)
      in \<lparr>score = score, feedback = feedback\<rparr>)"

subsection \<open>\<open>extractTextFromUpload\<close>\<close>

text \<open>A thrown \<open>Error\<close>, with its message.\<close>
datatype js_error = Error ustring

text \<open>
  The library calls are parameters: decoding a buffer as UTF-8, which never throws, and
  the two parsers (\<open>pdf-parse\<close> and \<open>mammoth.extractRawText\<close>), each of which either
  rejects with an error or resolves with an object whose text (\<open>data.text\<close>,
  \<open>result.value\<close>) may be missing. \<open>'b\<close> is the type of buffers.
\<close>
record 'b upload_env =
  toString_utf8 :: "'b \<Rightarrow> ustring"
  pdfParse :: "'b \<Rightarrow> js_error + ustring option"
  extractRawText :: "'b \<Rightarrow> js_error + ustring option"

text \<open>\<open>x || ""\<close> for a string that may be missing.\<close>
definition or_empty :: "ustring option \<Rightarrow> ustring" where
  "or_empty x = (case x of None \<Rightarrow> [] | Some t \<Rightarrow> t)"

text \<open>46 is the full stop.\<close>
definition file_extension :: "ustring \<Rightarrow> ustring" where
  "file_extension filename =
     (if str_in [46] filename then str_lower (last (str_split 46 filename)) else [])"

definition extractTextFromUpload :: "'b upload_env \<Rightarrow> ustring \<Rightarrow> 'b \<Rightarrow> js_error + ustring" where
  "extractTextFromUpload env filename content =
     (let extension = file_extension filename
      in if extension = u ''txt'' \<or> extension = u ''md'' then
           Inr (toString_utf8 env content)
         else if extension = u ''pdf'' then
           (case pdfParse env content of
              Inl e \<Rightarrow> Inl e
            | Inr data_text \<Rightarrow> Inr (or_empty data_text))
         else if extension = u ''docx'' then
           (case extractRawText env content of
              Inl e \<Rightarrow> Inl e
            | Inr result_value \<Rightarrow> Inr (or_empty result_value))
         else Inl (Error (u ''Unsupported file type.'')))"

subsection \<open>\<open>handler\<close>\<close>

text \<open>
  The event, the parsed request payload and the response. \<open>JSON.parse\<close> and the base64
  decoding of \<open>Buffer.from\<close> are parameters; a field of the payload is \<open>None\<close> when it is
  absent. The response keeps the status code and the value that \<open>jsonResponse\<close> writes
  into the body; the headers are constant and left out.
\<close>
record event =
  httpMethod :: ustring
  body :: "ustring option"

record upload_payload =
  filename :: "ustring option"
  contentBase64 :: "ustring option"

record 'b handler_env = "'b upload_env" +
  json_parse :: "ustring \<Rightarrow> js_error + upload_payload"
  from_base64 :: "ustring \<Rightarrow> 'b"

datatype response_body = NoBody | ErrorBody ustring | ResultBody "int scored"

record response =
  statusCode :: nat
  payload :: response_body

text \<open>The text that \<open>handler\<close> passes to \<open>JSON.parse\<close>: \<open>event.body || "{}"\<close>.\<close>
definition request_text :: "event \<Rightarrow> ustring" where
  "request_text event = (if or_empty (body event) = [] then u ''{}'' else or_empty (body event))"

definition jsonResponse :: "nat \<Rightarrow> response_body \<Rightarrow> response" where
  "jsonResponse code p = \<lparr>statusCode = code, payload = p\<rparr>"

definition handler :: "'b handler_env \<Rightarrow> event \<Rightarrow> response" where
  "handler env event =
     (if httpMethod event = u ''OPTIONS'' then \<lparr>statusCode = 204, payload = NoBody\<rparr>
      else if httpMethod event \<noteq> u ''POST'' then
        jsonResponse 405 (ErrorBody (u ''Method not allowed.''))
      else
        (case json_parse env (request_text event) of
           Inl e \<Rightarrow> jsonResponse 400 (ErrorBody (u ''Invalid JSON payload.''))
         | Inr parsed \<Rightarrow>
             if or_empty (filename parsed) = [] \<or> or_empty (contentBase64 parsed) = [] then
               jsonResponse 400 (ErrorBody (u ''Missing filename or file content.''))
             else
               (case extractTextFromUpload (upload_env.truncate env)
                       (or_empty (filename parsed))
                       (from_base64 env (or_empty (contentBase64 parsed))) of
                  Inl e \<Rightarrow> jsonResponse 400 (ErrorBody (u ''Unable to read file.''))
                | Inr text \<Rightarrow> jsonResponse 200 (ResultBody (scoreFromText text)))))"

section \<open>The upload endpoint (backend/routes/checker.py)\<close>

text \<open>
  \<open>upload_resume\<close> reads the file, parses it by the ending of its name and returns the
  text. \<open>ResumeParser\<close> is imported from a module that is not part of the sources, so its
  two methods are parameters, as is decoding the bytes as UTF-8; each may raise. The
  \<open>HTTPException\<close> for an unknown ending is raised inside the \<open>try\<close> block, whose
  \<open>except Exception\<close> clause catches it with every other exception.
\<close>
datatype py_exception = HTTPException nat ustring | OtherException ustring

record 'b parser_env =
  parse_pdf :: "'b \<Rightarrow> py_exception + ustring"
  parse_docx :: "'b \<Rightarrow> py_exception + ustring"
  decode_utf8 :: "'b \<Rightarrow> py_exception + ustring"

text \<open>\<open>t.endswith(p)\<close>\<close>
definition str_endswith :: "ustring \<Rightarrow> ustring \<Rightarrow> bool" where
  "str_endswith t p = startswith (rev t) (rev p)"

definition upload_resume :: "'b parser_env \<Rightarrow> ustring \<Rightarrow> 'b \<Rightarrow> py_exception + ustring" where
  "upload_resume env file_name content =
     (case (if str_endswith file_name (u ''.pdf'') then parse_pdf env content
            else if str_endswith file_name (u ''.docx'') then parse_docx env content
            else if str_endswith file_name (u ''.txt'') then decode_utf8 env content
            else Inl (HTTPException 400 (u ''Unsupported file format''))) of
        Inl e \<Rightarrow> Inl (HTTPException 500 (u ''Failed to parse resume''))
      | Inr text \<Rightarrow> Inr text)"

section \<open>The report of the ATS scorer\<close>

subsection \<open>\<open>_categorize_issues\<close>\<close>

text \<open>
  \<open>_categorize_issues(*feedback_lists)\<close> receives four lists of strings and, as its
  second argument, the dictionary \<open>keywords_data\<close>. It iterates each argument: a list
  yields its items and a dictionary its keys in insertion order. An argument that is
  falsy (an empty list) is skipped; the dictionary always holds two keys.
\<close>
datatype feedback_arg = FeedbackList "ustring list" | KeywordsDict keywords_data

fun iter_items :: "feedback_arg \<Rightarrow> ustring list" where
  "iter_items (FeedbackList xs) = xs"
| "iter_items (KeywordsDict d) = [u ''matched'', u ''missing'']"

fun is_falsy :: "feedback_arg \<Rightarrow> bool" where
  "is_falsy (FeedbackList xs) = (xs = [])"
| "is_falsy (KeywordsDict d) = False"

text \<open>\<open>any(x in item.lower() for x in keys)\<close>\<close>
definition any_in_lower :: "ustring list \<Rightarrow> ustring \<Rightarrow> bool" where
  "any_in_lower keys item = list_ex (\<lambda>x. str_in x (str_lower item)) keys"

type_synonym issues = "ustring list \<times> ustring list \<times> ustring list"

fun categorize_items :: "ustring list \<Rightarrow> issues \<Rightarrow> issues" where
  "categorize_items [] sofar = sofar"
| "categorize_items (item # rest) (critical_issues, warnings, improvements) =
     (if any_in_lower (map u [''missing'', ''remove'', ''avoid'', ''breaks'']) item
      then categorize_items rest (critical_issues @ [item], warnings, improvements)
      else if any_in_lower (map u [''consider'', ''try'', ''reduce'']) item
      then categorize_items rest (critical_issues, warnings, improvements @ [item])
      else categorize_items rest (critical_issues, warnings @ [item], improvements))"

fun categorize_lists :: "feedback_arg list \<Rightarrow> issues \<Rightarrow> issues" where
  "categorize_lists [] sofar = sofar"
| "categorize_lists (feedback_list # rest) sofar =
     (if is_falsy feedback_list then categorize_lists rest sofar
      else categorize_lists rest (categorize_items (iter_items feedback_list) sofar))"

text \<open>The result is \<open>(critical_issues, warnings, improvements)\<close>.\<close>
definition categorize_issues :: "feedback_arg list \<Rightarrow> issues" where
  "categorize_issues feedback_lists = categorize_lists feedback_lists ([], [], [])"

subsection \<open>\<open>score_resume\<close>\<close>

text \<open>\<open>round(x, 1)\<close>: the nearest multiple of one tenth, a tie going to the even one.\<close>
definition py_round1 :: "rat \<Rightarrow> rat" where
  "py_round1 x =
     (let y = x * 10;
          f = \<lfloor>y\<rfloor>;
          d = y - of_int f
      in of_int (if d < 1 / 2 then f
                 else if d > 1 / 2 then f + 1
                 else if even f then f else f + 1) / 10)"

text \<open>The five entries of \<open>"breakdown"\<close>; \<open>keywords\<close> and \<open>structure\<close> are reserved words
  of Isabelle, so these two fields carry a suffix.\<close>
record keywords_entry =
  kw_score :: rat
  kw_matched :: "ustring set"
  kw_missing :: "ustring set"

record breakdown =
  formatting :: "rat scored"
  keywords_dim :: keywords_entry
  impact :: "rat scored"
  content :: "rat scored"
  structure_dim :: "rat scored"

record score_report =
  overall_score :: rat
  breakdown :: breakdown
  critical_issues :: "ustring list"
  warnings :: "ustring list"
  improvements :: "ustring list"

definition score_resume :: "ustring \<Rightarrow> ustring \<Rightarrow> score_report" where
  "score_resume resume_text job_description =
     (let (formatting_score, formatting_feedback) = score_formatting resume_text;
          (keywords_score, keywords_data) = score_keywords resume_text job_description;
          (impact_score, impact_feedback) = score_impact resume_text;
          (content_score, content_feedback) = score_content resume_text;
          (structure_score, structure_feedback) = score_structure resume_text;
          overall_score =
            formatting_score * (20 / 100) +
            keywords_score * (30 / 100) +
            impact_score * (20 / 100) +
            content_score * (20 / 100) +
            structure_score * (10 / 100);
          (critical_issues, warnings, improvements) =
            categorize_issues
              [FeedbackList formatting_feedback, KeywordsDict keywords_data,
               FeedbackList impact_feedback, FeedbackList content_feedback,
               FeedbackList structure_feedback]
      in \<lparr>overall_score = py_round1 overall_score,
          breakdown =
            \<lparr>formatting = \<lparr>score = formatting_score, feedback = formatting_feedback\<rparr>,
             keywords_dim = \<lparr>kw_score = keywords_score,
                         kw_matched = matched keywords_data,
                         kw_missing = missing keywords_data\<rparr>,
             impact = \<lparr>score = impact_score, feedback = impact_feedback\<rparr>,
             content = \<lparr>score = content_score, feedback = content_feedback\<rparr>,
             structure_dim = \<lparr>score = structure_score, feedback = structure_feedback\<rparr>\<rparr>,
          critical_issues = critical_issues,
          warnings = warnings,
          improvements = improvements\<rparr>)"

section \<open>Auxiliary definitions\<close>

text \<open>
  Each \<open>if\<close> statement of a scorer changes the score and appends to the feedback. The
  two shapes that occur are named here, so that a scorer unfolds into a sum of
  deductions and a concatenation of messages without a case split per statement.
\<close>
definition deduct :: "bool \<Rightarrow> rat \<Rightarrow> ustring \<Rightarrow> rat \<times> ustring list \<Rightarrow> rat \<times> ustring list" where
  "deduct c d m p = (if c then (fst p - d, snd p @ [m]) else p)"

definition bonus :: "bool \<Rightarrow> 'n::plus \<Rightarrow> ustring \<Rightarrow> 'n \<times> ustring list \<Rightarrow> 'n \<times> ustring list" where
  "bonus c n m p = (if c then (fst p + n, snd p) else (fst p, snd p @ [m]))"

text \<open>The three tests of the loop in \<open>_categorize_issues\<close>, in the order it makes them.\<close>
definition is_critical :: "ustring \<Rightarrow> bool" where
  "is_critical item = any_in_lower (map u [''missing'', ''remove'', ''avoid'', ''breaks'']) item"

definition is_improvement :: "ustring \<Rightarrow> bool" where
  "is_improvement item =
     (\<not> is_critical item \<and> any_in_lower (map u [''consider'', ''try'', ''reduce'']) item)"

definition is_warning :: "ustring \<Rightarrow> bool" where
  "is_warning item =
     (\<not> is_critical item \<and> \<not> any_in_lower (map u [''consider'', ''try'', ''reduce'']) item)"

text \<open>The feedback strings of the dimension results of a report; the \<open>keywords\<close> entry has
  no \<open>feedback\<close> key.\<close>
definition report_feedback :: "score_report \<Rightarrow> ustring list" where
  "report_feedback r =
     feedback (formatting (breakdown r)) @ feedback (impact (breakdown r)) @
     feedback (content (breakdown r)) @ feedback (structure_dim (breakdown r))"

text \<open>Everything \<open>_categorize_issues\<close> iterates over in \<open>score_resume\<close>.\<close>
definition categorized :: "score_report \<Rightarrow> ustring list" where
  "categorized r =
     feedback (formatting (breakdown r)) @ [u ''matched'', u ''missing''] @
     feedback (impact (breakdown r)) @ feedback (content (breakdown r)) @
     feedback (structure_dim (breakdown r))"

text \<open>Every feedback string of the scorers starts with a capital letter.\<close>
definition capitalised :: "ustring \<Rightarrow> bool" where
  "capitalised s = (case s of [] \<Rightarrow> False | c # cs \<Rightarrow> is_ascii_upper c)"

subsection \<open>Sample requests and libraries\<close>

text \<open>Libraries that read every buffer and find no text in it; buffers hold the character
  codes of ASCII text.\<close>
definition blank_env :: "ustring upload_env" where
  "blank_env = \<lparr>toString_utf8 = (\<lambda>b. b), pdfParse = (\<lambda>b. Inr None),
                extractRawText = (\<lambda>b. Inr None)\<rparr>"

text \<open>A parser of PDF files that rejects every buffer.\<close>
definition failing_env :: "ustring upload_env" where
  "failing_env = \<lparr>toString_utf8 = (\<lambda>b. b), pdfParse = (\<lambda>b. Inl (Error (u ''Invalid PDF structure''))),
                  extractRawText = (\<lambda>b. Inr None)\<rparr>"

text \<open>A request that uploads \<open>resume.xyz\<close>, with a parser of JSON that reads it.\<close>
definition xyz_event :: event where
  "xyz_event = \<lparr>httpMethod = u ''POST'', body = Some (u ''{...}'')\<rparr>"

definition xyz_env :: "ustring handler_env" where
  "xyz_env = upload_env.extend blank_env
     (handler_env.fields
        (\<lambda>s. Inr \<lparr>filename = Some (u ''resume.xyz''), contentBase64 = Some (u ''c29tZQ=='')\<rparr>)
        (\<lambda>s. s))"

text \<open>The same request for \<open>resume.pdf\<close>, with a parser of PDF files that rejects it.\<close>
definition corrupt_env :: "ustring handler_env" where
  "corrupt_env = upload_env.extend failing_env
     (handler_env.fields
        (\<lambda>s. Inr \<lparr>filename = Some (u ''resume.pdf''), contentBase64 = Some (u ''c29tZQ=='')\<rparr>)
        (\<lambda>s. s))"

section \<open>Closed forms of the scorers\<close>

lemma deduct_fold: "(if c then (s - d, f @ [m]) else (s, f)) = deduct c d m (s, f)"
  by (simp add: deduct_def)

lemma bonus_fold: "(if c then (s + n, f) else (s, f @ [m])) = bonus c n m (s, f)"
  by (simp add: bonus_def)

lemma fst_deduct: "fst (deduct c d m p) = fst p - (if c then d else 0)"
  by (simp add: deduct_def)

lemma snd_deduct: "snd (deduct c d m p) = snd p @ (if c then [m] else [])"
  by (simp add: deduct_def)

lemma fst_bonus: "fst (bonus c n m p) = fst p + (if c then n else (0::'n::monoid_add))"
  by (simp add: bonus_def)

lemma snd_bonus: "snd (bonus c n m p) = snd p @ (if c then [] else [m])"
  by (simp add: bonus_def)

lemma case_deduct:
  "(case deduct c d m p of (s, f) \<Rightarrow> K s f) = K (fst (deduct c d m p)) (snd (deduct c d m p))"
  by (simp add: case_prod_beta)

lemma case_bonus:
  "(case bonus c n m p of (s, f) \<Rightarrow> K s f) = K (fst (bonus c n m p)) (snd (bonus c n m p))"
  by (simp add: case_prod_beta)

lemma append_if_fold: "(if c then xs @ [x] else xs) = xs @ (if c then [x] else [])"
  by simp

lemma in_set_if_single: "x \<in> set (if c then [a] else []) \<longleftrightarrow> c \<and> x = a"
  by auto

lemma length_u: "length (u s) = length s"
  by (simp add: u_def)

lemma section_names_distinct:
  "u ''experience'' \<noteq> u ''education''" "u ''experience'' \<noteq> u ''skills''"
  "u ''education'' \<noteq> u ''skills''" "u ''education'' \<noteq> u ''experience''"
  "u ''skills'' \<noteq> u ''experience''" "u ''skills'' \<noteq> u ''education''"
  by (simp_all add: u_def)

lemma score_formatting_closed:
  "score_formatting text =
    (let found = filter (\<lambda>char. str_in char text) ATS_BREAKING_CHARS;
         lines = str_split 10 text
     in (max 0 (100 - (if found \<noteq> [] then 10 else 0)
                   - (if str_in [124] text \<or> str_in [9472] text then 15 else 0)
                   - (if str_in [8203] text \<or> str_in [65279] text then 10 else 0)
                   - (if length lines < 10 then 5 else 0)
                   - (if length lines > 100 then 5 else 0)
                   - (if str_in (u ''  '') text then 3 else 0)),
         (if found \<noteq> []
          then [u ''Remove special characters: '' @ str_join (u '', '') found] else []) @
         (if str_in [124] text \<or> str_in [9472] text
          then [u ''Tables detected - ATS may not parse correctly. Use text format instead.'']
          else []) @
         (if str_in [8203] text \<or> str_in [65279] text
          then [u ''Hidden characters detected. Clean up encoding.''] else []) @
         (if length lines < 10 then [u ''Resume seems too short. Add more content.''] else []) @
         (if length lines > 100
          then [u ''Resume seems too long. Consider condensing to 1-2 pages.''] else []) @
         (if str_in (u ''  '') text then [u ''Remove extra spaces between words.''] else [])))"
  unfolding score_formatting_def Let_def deduct_fold case_deduct fst_deduct snd_deduct
  by (simp only: fst_conv snd_conv append_Nil append_assoc)

lemma score_content_closed:
  "score_content text =
    (let text_lower = str_lower text;
         no_experience =
           \<not> (str_in (u ''experience'') text_lower \<or> str_in (u ''employment'') text_lower);
         no_education = \<not> (str_in (u ''education'') text_lower \<or> str_in (u ''degree'') text_lower);
         no_skills = \<not> (str_in (u ''skills'') text_lower \<or> str_in (u ''technical'') text_lower);
         summary = (str_in (u ''summary'') text_lower \<or> str_in (u ''objective'') text_lower \<or>
                    str_in (u ''profile'') text_lower);
         no_email = \<not> str_in [64] text;
         no_phone = \<not> search_phone text
     in (max 0 (100 - (if no_experience then 20 else 0) - (if no_education then 20 else 0)
                    - (if no_skills then 20 else 0) + (if summary then 5 else 0)
                    - (if no_email then 10 else 0)),
         (if no_experience
          then [u ''Missing '' @ [39] @ u ''experience'' @ [39] @
                u '' section. Add it to improve completeness.'']
          else []) @
         (if no_education
          then [u ''Missing '' @ [39] @ u ''education'' @ [39] @
                u '' section. Add it to improve completeness.'']
          else []) @
         (if no_skills
          then [u ''Missing '' @ [39] @ u ''skills'' @ [39] @
                u '' section. Add it to improve completeness.'']
          else []) @
         (if summary then [] else [u ''Consider adding a professional summary (2-3 sentences).'']) @
         (if no_email then [u ''Missing email address. Add your contact information.''] else []) @
         (if no_phone then [u ''Consider adding phone number for completeness.''] else [])))"
  unfolding score_content_def Let_def append_if_fold deduct_fold bonus_fold list.map fold_simps
    o_apply id_apply prod.case case_deduct case_bonus fst_deduct snd_deduct fst_bonus snd_bonus
    fst_conv snd_conv set_append in_set_if_single append_Nil
  by (simp only: section_names_distinct simp_thms append_assoc append_Nil Un_iff empty_iff
        in_set_if_single list.set)

lemma scoreFromText_closed:
  "scoreFromText text =
    (let normalized = str_lower text;
         long = (length text \<ge> 800);
         skills = str_in (u ''skills'') normalized;
         experience = list_ex (\<lambda>keyword. str_in keyword normalized)
                        (map u [''experience'', ''work history'', ''employment'']);
         education = list_ex (\<lambda>keyword. str_in keyword normalized)
                       (map u [''education'', ''degree'', ''university'', ''college'']);
         bullets =
           (length (filter (\<lambda>line. startswith line [45] \<or> startswith line [226, 8364, 162])
                      (map str_trim (str_split 10 text))) \<ge> 5);
         email = str_in [64] normalized;
         issues =
           (if long then [] else [u ''Add more detail (aim for 350-500 words).'']) @
           (if skills then [] else [u ''Include a dedicated skills section.'']) @
           (if experience then []
            else [u ''Add an experience section with impact-focused bullets.'']) @
           (if education then [] else [u ''Add education details.'']) @
           (if bullets then [] else [u ''Use more bullet points to highlight achievements.'']) @
           (if email then [] else [u ''Add an email address for contact info.''])
     in \<lparr>score = min (50 + (if long then 10 else 0) + (if skills then 8 else 0) +
                          (if experience then 12 else 0) + (if education then 6 else 0) +
                          (if bullets then 10 else 0) + (if email then 5 else 0)) 100,
         feedback =
           (if issues = []
            then issues @ [u ''Resume looks solid. Customize it for the target role and keywords.'']
            else issues)\<rparr>)"
  unfolding scoreFromText_def Let_def bonus_fold case_bonus fst_bonus snd_bonus fst_conv snd_conv
  by (simp only: append_Nil append_assoc)

lemma deduct_fold2:
  "(if c then (s - d, f @ [m]) else deduct c' d' m' (s, f)) =
   deduct (\<not> c \<and> c') d' m' (deduct c d m (s, f))"
  by (simp add: deduct_def)

lemma advise_fold: "(if c then (s, f @ [m]) else (s, f)) = (s, f @ (if c then [m] else []))"
  by simp

lemma if_pair: "(if c then (a, b) else (a', b')) = (if c then a else a', if c then b else b')"
  by simp

lemma if_if_single: "(if c then (if c' then [m] else []) else []) = (if c \<and> c' then [m] else [])"
  by simp

lemma score_structure_closed:
  "score_structure text =
    (let lines = str_split 10 text;
         few_headings = (length (filter (\<lambda>line. str_isupper line \<and> length line < 30) lines) < 3);
         long_lines = ((of_nat (length (filter (\<lambda>line. length line > 100) lines)) :: rat)
                         > of_nat (length lines) * (3 / 10));
         no_bullets = (str_count [8226] text + str_count [45] text + str_count [42] text = 0);
         word_count = length (str_split_ws text)
     in (max 0 (100 - (if few_headings then 15 else 0) - (if long_lines then 10 else 0)
                    - (if no_bullets then 20 else 0) - (if word_count < 200 then 10 else 0)
                    - (if \<not> word_count < 200 \<and> word_count > 1500 then 10 else 0)),
         (if few_headings
          then [u ''Use clear section headings in CAPS (e.g., EXPERIENCE, EDUCATION, SKILLS).'']
          else []) @
         (if long_lines
          then [u ''Some lines are very long. Break them into smaller chunks for readability.'']
          else []) @
         (if no_bullets
          then [u ''Use bullet points ('' @ [8226] @
                u '') to structure information. Improves readability and ATS parsing.'']
          else []) @
         (if word_count < 200 then [u ''Resume seems short. Add more relevant content.''] else []) @
         (if \<not> word_count < 200 \<and> word_count > 1500
          then [u ''Resume seems long. Aim for 1-2 pages (200-1000 words).''] else [])))"
  unfolding score_structure_def Let_def deduct_fold deduct_fold2 case_deduct fst_deduct snd_deduct
  by (simp only: fst_conv snd_conv append_Nil append_assoc)

lemma score_impact_closed:
  "score_impact text =
    (let (strong_verb_count, weak_verb_count, no_verb_count) =
           count_verbs (str_split 10 text) (0, 0, 0);
         total_bullets = strong_verb_count + weak_verb_count + no_verb_count;
         strong_percent = (of_nat strong_verb_count / of_nat total_bullets) * 100;
         weak_percent = (of_nat weak_verb_count / of_nat total_bullets) * 100;
         few_metrics = (count_metrics text < 3);
         passive = (sum_list (map (\<lambda>indicator. str_count indicator text)
                       (map u [''was '', ''were '', ''been '', ''is '', ''are ''])) > 5)
     in (max 0 ((if total_bullets > 0
                 then (strong_percent * (5 / 10)) + ((100 - weak_percent) * (5 / 10))
                 else 100)
                - (if few_metrics then 20 else 0) - (if passive then 10 else 0)),
         (if total_bullets > 0 \<and> weak_percent > 50
          then [u ''Weak verbs detected ('' @ str_of_nat weak_verb_count @
                u '' instances). Replace 'worked', 'helped', 'involved' with stronger verbs like 'led', 'designed', 'achieved'.'']
          else []) @
         (if few_metrics
          then [u ''Add quantifiable metrics. Include numbers: percentages, dollars, scale, timeline.'']
          else []) @
         (if passive
          then [u ''Reduce passive voice. Prefer active voice (e.g., 'Led' vs 'Was responsible for').'']
          else [])))"
  unfolding score_impact_def Let_def deduct_fold advise_fold
  unfolding if_pair prod.case case_deduct fst_deduct snd_deduct fst_conv snd_conv
  by (simp only: append_Nil append_assoc if_if_single)

lemma default_nonempty: "(if xs = [] then xs @ [d] else xs) \<noteq> []"
  by simp

lemma capped_sum_range:
  fixes a1 :: int
  assumes "0 \<le> a1" "0 \<le> a2" "0 \<le> a3" "0 \<le> a4" "0 \<le> a5" "0 \<le> a6"
  shows "50 \<le> min (50 + a1 + a2 + a3 + a4 + a5 + a6) 100 \<and>
         min (50 + a1 + a2 + a3 + a4 + a5 + a6) 100 \<le> 100"
  using assms by simp

section \<open>The file-upload scorer: range of the score\<close>

text \<open>
  C10. For every extracted text, the empty string included, \<open>scoreFromText\<close> returns a
  score between 50 and 100: it starts at 50, only adds bonuses and is capped at 100. Its
  feedback list is never empty.
\<close>
theorem scoreFromText_range:
  "50 \<le> score (scoreFromText text) \<and> score (scoreFromText text) \<le> 100 \<and>
   feedback (scoreFromText text) \<noteq> []"
proof -
  have "feedback (scoreFromText text) \<noteq> []"
    unfolding scoreFromText_closed Let_def scored.select_convs by (rule default_nonempty)
  moreover have "50 \<le> score (scoreFromText text) \<and> score (scoreFromText text) \<le> 100"
    unfolding scoreFromText_closed Let_def scored.select_convs
    by (rule capped_sum_range; simp)
  ultimately show ?thesis by simp
qed

text \<open>The empty text gets exactly 50, and all six issues.\<close>
theorem scoreFromText_range_witness:
  "score (scoreFromText []) = 50 \<and> length (feedback (scoreFromText [])) = 6 \<and>
   50 \<le> score (scoreFromText []) \<and> score (scoreFromText []) \<le> 100 \<and>
   feedback (scoreFromText []) \<noteq> []"
proof -
  have "score (scoreFromText []) = 50" "length (feedback (scoreFromText [])) = 6"
    by code_simp+
  with scoreFromText_range [of "[]"] show ?thesis by simp
qed

section \<open>The Content scorer\<close>

lemma startswith_append: "startswith t p \<Longrightarrow> startswith (t @ e) p"
  by (induction t p rule: startswith.induct) auto

lemma str_in_append: "str_in p t \<Longrightarrow> str_in p (t @ e)"
proof (induction t)
  case Nil
  then show ?case by (cases e) auto
next
  case (Cons c cs)
  then show ?case by (auto dest: startswith_append [where e = e])
qed

lemma str_in_single: "str_in [c] t \<longleftrightarrow> c \<in> set t"
proof (induction t)
  case Nil
  show ?case by simp
next
  case (Cons a as)
  have "startswith (a # as) [c] \<longleftrightarrow> a = c"
    by (cases as) auto
  with Cons show ?case by auto
qed

lemma str_in_lower_append: "str_in p (str_lower t) \<Longrightarrow> str_in p (str_lower (t @ e))"
  by (simp add: str_lower_def str_in_append)

lemma content_sum_mono:
  fixes a :: rat
  assumes "a' \<le> a" "b' \<le> b" "c' \<le> c" "m \<le> m'" "e' \<le> e"
  shows "max 0 (100 - a - b - c + m - e) \<le> max 0 (100 - a' - b' - c' + m' - e')"
  using assms by linarith

text \<open>
  C8. For every text without an at sign, appending an e-mail address (a string that
  contains an at sign) never lowers the Content score.
\<close>
theorem content_score_email_monotone:
  assumes "64 \<notin> set text" and "64 \<in> set email"
  shows "fst (score_content text) \<le> fst (score_content (text @ email))"
proof -
  have at: "str_in [64] (text @ email)"
    using assms(2) by (simp add: str_in_single)
  show ?thesis
    unfolding score_content_closed Let_def fst_conv
    by (rule content_sum_mono) (use at in \<open>auto dest: str_in_lower_append [where e = email]\<close>)
qed

text \<open>The text \<open>skills\<close> scores 50; with \<open>a@b.c\<close> appended it scores 60.\<close>
theorem content_score_email_monotone_witness:
  "64 \<notin> set (u ''skills'') \<and> 64 \<in> set (u ''a@b.c'') \<and>
   fst (score_content (u ''skills'')) = 50 \<and> fst (score_content (u ''skills'' @ u ''a@b.c'')) = 60 \<and>
   fst (score_content (u ''skills'')) \<le> fst (score_content (u ''skills'' @ u ''a@b.c''))"
proof -
  have h1: "64 \<notin> set (u ''skills'')" and h2: "64 \<in> set (u ''a@b.c'')"
    by (simp_all add: u_def)
  have "fst (score_content (u ''skills'')) = 50"
    and "fst (score_content (u ''skills'' @ u ''a@b.c'')) = 60"
    by code_simp+
  with h1 h2 content_score_email_monotone [OF h1 h2] show ?thesis by simp
qed

section \<open>The Keywords scorer with a job description\<close>

lemma tier_penalty:
  "(if c1 then s - 30 else if c2 then s - 15 else if c3 then s - 5 else s) =
   s - (if c1 then 30 else if c2 then 15 else if c3 then 5 else (0::rat))"
  by simp

text \<open>
  C2. With a job description that is not empty, the Keywords score is the match ratio
  times 100, less one penalty, floored at 0. The ratio is the number of keywords of the
  job description (counted with repetition) that are keywords of the resume, divided
  by the number of keywords of the job description (at least 1). The penalty is 30 below
  a ratio of 0.3, otherwise 15 below 0.5, otherwise 5 below 0.7, otherwise nothing.
\<close>
theorem keywords_score_jd_mode:
  assumes "job_description \<noteq> []"
  shows "fst (score_keywords resume_text job_description) =
     (let jd_keywords = extract_keywords (str_lower job_description);
          resume_keywords = extract_keywords (str_lower resume_text);
          n_matched = length (filter (\<lambda>k. k \<in> set resume_keywords) jd_keywords);
          ratio = of_nat n_matched / of_nat (max (length jd_keywords) 1);
          penalty = (if ratio < 3 / 10 then 30
                     else if ratio < 5 / 10 then 15
                     else if ratio < 7 / 10 then 5
                     else 0)
      in max 0 (ratio * 100 - penalty))"
  unfolding score_keywords_def Let_def tier_penalty
  using assms by (simp only: simp_thms if_True fst_conv)

lemmas eval_strings = u_def str_lower_def lower_cp_def is_ascii_upper_def is_ascii_lower_def
  py_isspace_def str_split_ws_def extract_keywords_def Let_def

text \<open>Two of the three keywords of the job description match: 2/3 * 100 - 5.\<close>
theorem keywords_score_jd_mode_witness:
  "u ''python python golang'' \<noteq> [] \<and>
   fst (score_keywords (u ''python java'') (u ''python python golang'')) = 185 / 3"
proof -
  have ne: "u ''python python golang'' \<noteq> []"
    by (simp add: u_def)
  have "fst (score_keywords (u ''python java'') (u ''python python golang'')) = 185 / 3"
    by (subst keywords_score_jd_mode [OF ne]) (simp add: eval_strings)
  with ne show ?thesis by simp
qed

section \<open>The overall score\<close>




section \<open>Ranges of the scores\<close>

text \<open>Every scorer ends with \<open>max(0, score)\<close>, and none but the Content scorer ever adds
  to the 100 points it starts from.\<close>

lemma range_after_deductions:
  fixes a :: rat
  assumes "0 \<le> a" "0 \<le> b" "0 \<le> c" "0 \<le> d" "0 \<le> e" "0 \<le> f"
  shows "0 \<le> max 0 (100 - a - b - c - d - e - f) \<and> max 0 (100 - a - b - c - d - e - f) \<le> 100"
  using assms by auto

lemma range_after_five_deductions:
  fixes a :: rat
  assumes "0 \<le> a" "0 \<le> b" "0 \<le> c" "0 \<le> d" "0 \<le> e"
  shows "0 \<le> max 0 (100 - a - b - c - d - e) \<and> max 0 (100 - a - b - c - d - e) \<le> 100"
  using assms by auto

lemma range_after_bonus:
  fixes a :: rat
  assumes "0 \<le> a" "0 \<le> b" "0 \<le> c" "m \<le> 5" "0 \<le> e"
  shows "0 \<le> max 0 (100 - a - b - c + m - e) \<and> max 0 (100 - a - b - c + m - e) \<le> 105"
  using assms by auto

lemma formatting_score_range:
  "0 \<le> fst (score_formatting t) \<and> fst (score_formatting t) \<le> 100"
  unfolding score_formatting_closed Let_def fst_conv
  by (rule range_after_deductions; simp)

lemma structure_score_range:
  "0 \<le> fst (score_structure t) \<and> fst (score_structure t) \<le> 100"
  unfolding score_structure_closed Let_def fst_conv
  by (rule range_after_five_deductions; simp)

lemma content_score_range:
  "0 \<le> fst (score_content t) \<and> fst (score_content t) \<le> 105"
  unfolding score_content_closed Let_def fst_conv
  by (rule range_after_bonus; simp)

lemma ratio_range:
  assumes "m \<le> n"
  shows "0 \<le> (of_nat m :: rat) / of_nat (max n 1) \<and> (of_nat m :: rat) / of_nat (max n 1) \<le> 1"
proof -
  have "(of_nat m :: rat) \<le> of_nat (max n 1)"
    using assms by (simp add: max_def)
  moreover have "(0::rat) < of_nat (max n 1)"
    by (simp add: max_def)
  ultimately show ?thesis by (simp add: divide_le_eq_1)
qed

lemma keywords_score_range:
  "0 \<le> fst (score_keywords t jd) \<and> fst (score_keywords t jd) \<le> 100"
proof (cases "jd = []")
  case True
  then show ?thesis
    unfolding score_keywords_def Let_def by simp
next
  case False
  define r :: rat where
    "r = of_nat (length (filter (\<lambda>keyword. keyword \<in> set (extract_keywords (str_lower t)))
                           (extract_keywords (str_lower jd)))) /
         of_nat (max (length (extract_keywords (str_lower jd))) 1)"
  have r: "0 \<le> r \<and> r \<le> 1"
    unfolding r_def by (rule ratio_range) simp
  have "fst (score_keywords t jd) =
          max 0 (r * 100 - (if r < 3 / 10 then 30 else if r < 5 / 10 then 15
                            else if r < 7 / 10 then 5 else 0))"
    using False unfolding score_keywords_def Let_def tier_penalty r_def
    by (simp only: simp_thms if_True fst_conv)
  with r show ?thesis by auto
qed

lemma impact_score_range:
  "0 \<le> fst (score_impact t) \<and> fst (score_impact t) \<le> 100"
proof -
  obtain s w n where cv: "count_verbs (str_split 10 t) (0, 0, 0) = (s, w, n)"
    by (metis prod_cases3)
  define total where "total = s + w + n"
  define verbs :: rat where
    "verbs = (if total > 0
              then (of_nat s / of_nat total * 100) * (5 / 10) +
                   ((100 - of_nat w / of_nat total * 100) * (5 / 10))
              else 100)"
  have "verbs \<le> 100"
  proof (cases "total > 0")
    case True
    define p q :: rat where "p = of_nat s / of_nat total" and "q = of_nat w / of_nat total"
    have "(of_nat s :: rat) \<le> of_nat total"
      unfolding total_def by simp
    moreover have "(0::rat) < of_nat total"
      using True by simp
    ultimately have "p \<le> 1" and "0 \<le> q"
      unfolding p_def q_def by (simp_all add: divide_le_eq_1)
    moreover have "verbs = p * 100 * (5 / 10) + (100 - q * 100) * (5 / 10)"
      unfolding verbs_def p_def q_def using True by (simp only: if_True)
    ultimately show ?thesis by (simp add: field_simps)
  next
    case False
    then show ?thesis unfolding verbs_def by simp
  qed
  moreover have "\<exists>a b. 0 \<le> a \<and> 0 \<le> b \<and> fst (score_impact t) = max 0 (verbs - a - (b::rat))"
    unfolding score_impact_closed Let_def cv prod.case fst_conv verbs_def total_def
    by (intro exI conjI; (rule refl)?) simp_all
  ultimately show ?thesis by auto
qed

lemma py_round1_range:
  assumes "0 \<le> x" and "x \<le> of_int n"
  shows "0 \<le> py_round1 x \<and> py_round1 x \<le> of_int n"
proof -
  define f where "f = \<lfloor>x * 10\<rfloor>"
  define d where "d = x * 10 - of_int f"
  define k where "k = (if d < 1 / 2 then f else if d > 1 / 2 then f + 1
                       else if even f then f else f + 1)"
  have r: "py_round1 x = of_int k / 10"
    unfolding py_round1_def Let_def k_def d_def f_def ..
  have f0: "0 \<le> f"
    unfolding f_def using assms(1) by simp
  have "x * 10 \<le> of_int (n * 10)"
    using assms(2) by simp
  then have fn: "f \<le> n * 10"
    unfolding f_def by (simp add: floor_le_iff del: of_int_mult)
  have "d = 0" if "f = n * 10"
  proof -
    have "of_int f \<le> x * 10"
      unfolding f_def by simp
    moreover have "x * 10 \<le> of_int f"
      using assms(2) that by simp
    ultimately show ?thesis unfolding d_def by simp
  qed
  then have "k \<le> n * 10"
    using fn unfolding k_def by (cases "f = n * 10") auto
  moreover have "0 \<le> k"
    using f0 unfolding k_def by auto
  ultimately have "(0::rat) \<le> of_int k" and "(of_int k :: rat) \<le> of_int (n * 10)"
    by (simp_all only: of_int_le_iff of_int_0_le_iff)
  then show ?thesis
    unfolding r by simp
qed

lemma overall_score_range:
  "0 \<le> overall_score (score_resume t jd) \<and> overall_score (score_resume t jd) \<le> 101"
proof -
  define w where
    "w = fst (score_formatting t) * (20 / 100) + fst (score_keywords t jd) * (30 / 100) +
         fst (score_impact t) * (20 / 100) + fst (score_content t) * (20 / 100) +
         fst (score_structure t) * (10 / 100)"
  have o: "overall_score (score_resume t jd) = py_round1 w"
    unfolding w_def score_resume_def Let_def case_prod_beta
    by (simp only: score_report.select_convs)
  have "0 \<le> w \<and> w \<le> of_int 101"
    unfolding w_def
    using formatting_score_range [of t] keywords_score_range [of t jd] impact_score_range [of t]
      content_score_range [of t] structure_score_range [of t]
    by simp
  then have "0 \<le> py_round1 w \<and> py_round1 w \<le> of_int 101"
    by (intro py_round1_range) simp_all
  then show ?thesis
    unfolding o by simp
qed

text \<open>
  C1. The docstring of \<open>score_resume\<close> promises every dimension score and the overall
  score in 0-100. The Content scorer only takes \<open>max(0, score)\<close>: a text that names the
  three sections, a summary and an at sign keeps all 100 points and gets the bonus of 5
  on top. The text below is long enough (100 characters) for the \<open>/analyze\<close> endpoint.
\<close>
theorem content_score_can_exceed_100:
  "length (u ''John Doe john@example.com Professional summary: engineer with experience in web services. Education: BSc. Skills: Python, SQL.'') \<ge> 100 \<and>
   fst (score_content (u ''John Doe john@example.com Professional summary: engineer with experience in web services. Education: BSc. Skills: Python, SQL.'')) = 105"
  unfolding score_content_closed Let_def fst_conv
  by (simp add: u_def str_lower_def lower_cp_def is_ascii_upper_def)

section \<open>The classification of feedback\<close>

lemma categorize_items_filter:
  "categorize_items items (c, w, i) =
     (c @ filter is_critical items, w @ filter is_warning items, i @ filter is_improvement items)"
  by (induction items arbitrary: c w i)
     (simp_all add: is_critical_def is_improvement_def is_warning_def)

lemma falsy_no_items: "is_falsy feedback_list \<Longrightarrow> iter_items feedback_list = []"
  by (cases feedback_list) simp_all

lemma categorize_lists_filter:
  "categorize_lists feedback_lists (c, w, i) =
     (c @ filter is_critical (concat (map iter_items feedback_lists)),
      w @ filter is_warning (concat (map iter_items feedback_lists)),
      i @ filter is_improvement (concat (map iter_items feedback_lists)))"
  by (induction feedback_lists arbitrary: c w i)
     (simp_all add: categorize_items_filter falsy_no_items)

lemma categorize_issues_filter:
  "categorize_issues feedback_lists =
     (filter is_critical (concat (map iter_items feedback_lists)),
      filter is_warning (concat (map iter_items feedback_lists)),
      filter is_improvement (concat (map iter_items feedback_lists)))"
  by (simp add: categorize_issues_def categorize_lists_filter)

lemma report_parts:
  "feedback (formatting (breakdown (score_resume t jd))) = snd (score_formatting t)"
  "feedback (impact (breakdown (score_resume t jd))) = snd (score_impact t)"
  "feedback (content (breakdown (score_resume t jd))) = snd (score_content t)"
  "feedback (structure_dim (breakdown (score_resume t jd))) = snd (score_structure t)"
  unfolding score_resume_def Let_def case_prod_beta by simp_all

lemma report_issues:
  "critical_issues (score_resume t jd) = filter is_critical (categorized (score_resume t jd))"
  "warnings (score_resume t jd) = filter is_warning (categorized (score_resume t jd))"
  "improvements (score_resume t jd) = filter is_improvement (categorized (score_resume t jd))"
  unfolding categorized_def report_parts
  unfolding score_resume_def Let_def case_prod_beta categorize_issues_filter
  by simp_all

subsection \<open>Feedback strings start with a capital letter\<close>

lemma capitalised_u: "capitalised (u (c # s) @ r) = is_ascii_upper (of_char c)"
  by (simp add: capitalised_def u_def)

lemma capitalised_u': "capitalised (u (c # s)) = is_ascii_upper (of_char c)"
  by (simp add: capitalised_def u_def)

lemma list_all_if_single: "list_all P (if c then [m] else []) = (c \<longrightarrow> P m)"
  by simp

lemma list_all_if_single': "list_all P (if c then [] else [m]) = (\<not> c \<longrightarrow> P m)"
  by simp

lemmas capital_eval = capitalised_u capitalised_u' list_all_if_single list_all_if_single'
  list_all_append is_ascii_upper_def

lemma formatting_capitalised: "list_all capitalised (snd (score_formatting t))"
  unfolding score_formatting_closed Let_def snd_conv by (simp add: capital_eval split del: if_split)

lemma impact_capitalised: "list_all capitalised (snd (score_impact t))"
  unfolding score_impact_closed Let_def case_prod_beta snd_conv
  by (simp add: capital_eval split del: if_split)

lemma content_capitalised: "list_all capitalised (snd (score_content t))"
  unfolding score_content_closed Let_def snd_conv by (simp add: capital_eval split del: if_split)

lemma structure_capitalised: "list_all capitalised (snd (score_structure t))"
  unfolding score_structure_closed Let_def snd_conv by (simp add: capital_eval split del: if_split)

lemma report_feedback_capitalised:
  "s \<in> set (report_feedback (score_resume t jd)) \<Longrightarrow> capitalised s"
  using formatting_capitalised [of t] impact_capitalised [of t] content_capitalised [of t]
    structure_capitalised [of t]
  unfolding report_feedback_def report_parts by (auto simp: list_all_iff)

lemma keys_not_capitalised: "\<not> capitalised (u ''matched'')" "\<not> capitalised (u ''missing'')"
  by (simp_all add: capitalised_def u_def is_ascii_upper_def)

lemmas eval_classes = is_critical_def is_improvement_def is_warning_def any_in_lower_def
  str_lower_def lower_cp_def is_ascii_upper_def u_def

lemma keys_classes: "is_critical (u ''missing'')" "is_warning (u ''matched'')"
  by (simp_all add: eval_classes)

lemma classes_partition:
  "(is_critical s \<and> \<not> is_warning s \<and> \<not> is_improvement s) \<or>
   (\<not> is_critical s \<and> is_warning s \<and> \<not> is_improvement s) \<or>
   (\<not> is_critical s \<and> \<not> is_warning s \<and> is_improvement s)"
  unfolding is_warning_def is_improvement_def by blast

lemma count_list_append: "count_list (xs @ ys) s = count_list xs s + count_list ys s"
  by (induction xs) auto

lemma count_list_partition:
  "count_list (filter is_critical xs @ filter is_warning xs @ filter is_improvement xs) s =
   count_list xs s"
proof (induction xs)
  case Nil
  show ?case by simp
next
  case (Cons x xs)
  from classes_partition [of x] Cons show ?case
    by (auto simp: count_list_append)
qed

text \<open>
  C4. Every feedback string of the four dimension results that carry feedback is in
  exactly one of \<open>critical_issues\<close>, \<open>warnings\<close> and \<open>improvements\<close>, and it occurs in the
  three lists together as often as in the dimension results: none is dropped and none
  is placed twice.
\<close>
theorem feedback_in_exactly_one_list:
  assumes "s \<in> set (report_feedback (score_resume t jd))"
  shows
    "((s \<in> set (critical_issues (score_resume t jd)) \<and>
       s \<notin> set (warnings (score_resume t jd)) \<and>
       s \<notin> set (improvements (score_resume t jd))) \<or>
      (s \<notin> set (critical_issues (score_resume t jd)) \<and>
       s \<in> set (warnings (score_resume t jd)) \<and>
       s \<notin> set (improvements (score_resume t jd))) \<or>
      (s \<notin> set (critical_issues (score_resume t jd)) \<and>
       s \<notin> set (warnings (score_resume t jd)) \<and>
       s \<in> set (improvements (score_resume t jd)))) \<and>
     count_list (critical_issues (score_resume t jd) @ warnings (score_resume t jd) @
                 improvements (score_resume t jd)) s =
     count_list (report_feedback (score_resume t jd)) s"
proof -
  let ?r = "score_resume t jd"
  have "capitalised s"
    using assms by (rule report_feedback_capitalised)
  with keys_not_capitalised have ne: "s \<noteq> u ''matched''" "s \<noteq> u ''missing''"
    by auto
  have mem: "s \<in> set (categorized ?r)"
    using assms unfolding report_feedback_def categorized_def by auto
  have cnt: "count_list (categorized ?r) s = count_list (report_feedback ?r) s"
    using ne unfolding report_feedback_def categorized_def by (simp add: count_list_append)
  show ?thesis
    unfolding report_issues count_list_partition cnt
    using mem classes_partition [of s] by auto
qed

text \<open>For the resume \<open>abc\<close> the missing e-mail address is reported, as a critical issue
  only.\<close>
theorem feedback_in_exactly_one_list_witness:
  "u ''Missing email address. Add your contact information.''
     \<in> set (report_feedback (score_resume (u ''abc'') [])) \<and>
   u ''Missing email address. Add your contact information.''
     \<in> set (critical_issues (score_resume (u ''abc'') [])) \<and>
   u ''Missing email address. Add your contact information.''
     \<notin> set (warnings (score_resume (u ''abc'') [])) \<and>
   u ''Missing email address. Add your contact information.''
     \<notin> set (improvements (score_resume (u ''abc'') []))"
proof -
  let ?s = "u ''Missing email address. Add your contact information.''"
  let ?r = "score_resume (u ''abc'') []"
  have ne: "\<not> str_in [64] (u ''abc'')"
    by (simp add: str_in_single u_def)
  have "?s \<in> set (snd (score_content (u ''abc'')))"
    unfolding score_content_closed Let_def snd_conv using ne by simp
  then have h: "?s \<in> set (report_feedback ?r)"
    unfolding report_feedback_def report_parts by simp
  have "is_critical ?s"
    by (simp add: eval_classes)
  with h have "?s \<in> set (critical_issues ?r)"
    unfolding report_issues report_feedback_def categorized_def by auto
  with h feedback_in_exactly_one_list [OF h] show ?thesis by blast
qed

text \<open>
  C9. For every resume and job description, \<open>critical_issues\<close> contains the string
  \<open>missing\<close> and \<open>warnings\<close> contains the string \<open>matched\<close>: the classifier iterates the
  keys of the keywords dictionary. Neither is a feedback string of a dimension result.
\<close>
theorem keys_in_classified_lists:
  "u ''missing'' \<in> set (critical_issues (score_resume t jd)) \<and>
   u ''matched'' \<in> set (warnings (score_resume t jd)) \<and>
   u ''missing'' \<notin> set (report_feedback (score_resume t jd)) \<and>
   u ''matched'' \<notin> set (report_feedback (score_resume t jd))"
proof -
  have "u ''missing'' \<in> set (categorized (score_resume t jd))"
    and "u ''matched'' \<in> set (categorized (score_resume t jd))"
    unfolding categorized_def by simp_all
  then have "u ''missing'' \<in> set (critical_issues (score_resume t jd))"
    and "u ''matched'' \<in> set (warnings (score_resume t jd))"
    unfolding report_issues using keys_classes by simp_all
  moreover have "u ''missing'' \<notin> set (report_feedback (score_resume t jd))"
    and "u ''matched'' \<notin> set (report_feedback (score_resume t jd))"
    using report_feedback_capitalised keys_not_capitalised by blast+
  ultimately show ?thesis by blast
qed

text \<open>
  C5. A string that the classifier iterates over is put in the critical list exactly
  when its lower-case form contains one of \<open>missing\<close>, \<open>remove\<close>, \<open>avoid\<close>, \<open>breaks\<close>;
  otherwise in the improvements exactly when it contains one of \<open>consider\<close>, \<open>try\<close>,
  \<open>reduce\<close>; otherwise in the warnings. The lists depend on the string alone, so equal
  strings are classified alike.
\<close>
theorem classifier_rule:
  assumes "categorize_issues feedback_lists = (critical, warns, improves)"
    and "item \<in> set (concat (map iter_items feedback_lists))"
  shows
    "(item \<in> set critical \<longleftrightarrow>
        any_in_lower (map u [''missing'', ''remove'', ''avoid'', ''breaks'']) item) \<and>
     (item \<in> set improves \<longleftrightarrow>
        \<not> any_in_lower (map u [''missing'', ''remove'', ''avoid'', ''breaks'']) item \<and>
        any_in_lower (map u [''consider'', ''try'', ''reduce'']) item) \<and>
     (item \<in> set warns \<longleftrightarrow>
        \<not> any_in_lower (map u [''missing'', ''remove'', ''avoid'', ''breaks'']) item \<and>
        \<not> any_in_lower (map u [''consider'', ''try'', ''reduce'']) item)"
  using assms unfolding categorize_issues_filter
  by (auto simp: is_critical_def is_improvement_def is_warning_def)

text \<open>A string with both \<open>consider\<close> and \<open>missing\<close> is critical.\<close>
theorem classifier_rule_witness:
  "categorize_issues [FeedbackList [u ''Consider adding the missing dates'']] =
     ([u ''Consider adding the missing dates''], [], []) \<and>
   any_in_lower (map u [''consider'', ''try'', ''reduce'']) (u ''Consider adding the missing dates'') \<and>
   any_in_lower (map u [''missing'', ''remove'', ''avoid'', ''breaks''])
     (u ''Consider adding the missing dates'')"
proof -
  let ?s = "u ''Consider adding the missing dates''"
  have c: "is_critical ?s"
    by (simp add: eval_classes)
  then have a: "categorize_issues [FeedbackList [?s]] = ([?s], [], [])"
    unfolding categorize_issues_filter by (simp add: is_warning_def is_improvement_def)
  have b: "?s \<in> set (concat (map iter_items [FeedbackList [?s]]))"
    by simp
  have i: "any_in_lower (map u [''consider'', ''try'', ''reduce'']) ?s"
    by (simp add: eval_classes)
  from classifier_rule [OF a b] a i show ?thesis by simp
qed

section \<open>Extraction of the uploaded file\<close>

lemmas eval_extension = file_extension_def str_lower_def lower_cp_def is_ascii_upper_def u_def

lemma handler_post:
  assumes "httpMethod event = u ''POST''"
    and "json_parse env (request_text event) = Inr parsed"
    and "or_empty (filename parsed) \<noteq> []" and "or_empty (contentBase64 parsed) \<noteq> []"
  shows "handler env event =
     (case extractTextFromUpload (upload_env.truncate env) (or_empty (filename parsed))
             (from_base64 env (or_empty (contentBase64 parsed))) of
        Inl e \<Rightarrow> jsonResponse 400 (ErrorBody (u ''Unable to read file.''))
      | Inr text \<Rightarrow> jsonResponse 200 (ResultBody (scoreFromText text)))"
proof -
  have "u ''POST'' \<noteq> u ''OPTIONS''"
    by (simp add: u_def)
  with assms show ?thesis
    unfolding handler_def by simp
qed

text \<open>
  C6, as the code has it. A file name whose extension is none of \<open>txt\<close>, \<open>md\<close>, \<open>pdf\<close>,
  \<open>docx\<close> makes \<open>extractTextFromUpload\<close> fail with the fixed message
  \<open>Unsupported file type.\<close>, whatever the content; \<open>handler\<close> answers such a request with
  status 400 and the message \<open>Unable to read file.\<close>, its answer to every failure of
  the extraction.
\<close>
theorem unsupported_extension_rejected:
  assumes "file_extension name \<noteq> u ''txt''" and "file_extension name \<noteq> u ''md''"
    and "file_extension name \<noteq> u ''pdf''" and "file_extension name \<noteq> u ''docx''"
  shows "extractTextFromUpload uenv name buf = Inl (Error (u ''Unsupported file type.'')) \<and>
    (httpMethod event = u ''POST'' \<and> json_parse env (request_text event) = Inr parsed \<and>
     or_empty (filename parsed) = name \<and> name \<noteq> [] \<and> or_empty (contentBase64 parsed) \<noteq> []
     \<longrightarrow> handler env event = jsonResponse 400 (ErrorBody (u ''Unable to read file.'')))"
proof -
  have e: "extractTextFromUpload uenv name buf = Inl (Error (u ''Unsupported file type.''))"
    for uenv :: "'c upload_env" and buf
    using assms unfolding extractTextFromUpload_def Let_def by simp
  show ?thesis
  proof (intro conjI impI)
    show "extractTextFromUpload uenv name buf = Inl (Error (u ''Unsupported file type.''))"
      by (rule e)
  next
    assume r: "httpMethod event = u ''POST'' \<and> json_parse env (request_text event) = Inr parsed \<and>
      or_empty (filename parsed) = name \<and> name \<noteq> [] \<and> or_empty (contentBase64 parsed) \<noteq> []"
    then have "handler env event =
      (case extractTextFromUpload (upload_env.truncate env) name
              (from_base64 env (or_empty (contentBase64 parsed))) of
         Inl e \<Rightarrow> jsonResponse 400 (ErrorBody (u ''Unable to read file.''))
       | Inr text \<Rightarrow> jsonResponse 200 (ResultBody (scoreFromText text)))"
      using handler_post [of event env parsed] by auto
    then show "handler env event = jsonResponse 400 (ErrorBody (u ''Unable to read file.''))"
      unfolding e by simp
  qed
qed

theorem unsupported_extension_rejected_witness:
  "file_extension (u ''resume.xyz'') \<noteq> u ''txt'' \<and> file_extension (u ''resume.xyz'') \<noteq> u ''md'' \<and>
   file_extension (u ''resume.xyz'') \<noteq> u ''pdf'' \<and> file_extension (u ''resume.xyz'') \<noteq> u ''docx'' \<and>
   extractTextFromUpload blank_env (u ''resume.xyz'') (u ''some text'') =
     Inl (Error (u ''Unsupported file type.'')) \<and>
   handler xyz_env xyz_event = jsonResponse 400 (ErrorBody (u ''Unable to read file.''))"
proof -
  have x: "file_extension (u ''resume.xyz'') \<noteq> u ''txt''" "file_extension (u ''resume.xyz'') \<noteq> u ''md''"
    "file_extension (u ''resume.xyz'') \<noteq> u ''pdf''" "file_extension (u ''resume.xyz'') \<noteq> u ''docx''"
    by (simp_all add: eval_extension)
  let ?parsed = "\<lparr>filename = Some (u ''resume.xyz''), contentBase64 = Some (u ''c29tZQ=='')\<rparr>"
  have r: "httpMethod xyz_event = u ''POST'' \<and>
      json_parse xyz_env (request_text xyz_event) = Inr ?parsed \<and>
      or_empty (filename ?parsed) = u ''resume.xyz'' \<and> u ''resume.xyz'' \<noteq> [] \<and>
      or_empty (contentBase64 ?parsed) \<noteq> []"
    by (simp add: xyz_event_def xyz_env_def upload_env.defs handler_env.defs or_empty_def u_def)
  from unsupported_extension_rejected [OF x, where uenv = blank_env and buf = "u ''some text''"
      and event = xyz_event and env = xyz_env and parsed = ?parsed] r x
  show ?thesis by blast
qed

lemmas eval_handler = handler_def jsonResponse_def extractTextFromUpload_def xyz_event_def
  xyz_env_def corrupt_env_def blank_env_def failing_env_def upload_env.defs handler_env.defs
  or_empty_def eval_extension

text \<open>The claim as stated fails for \<open>resume.xyz\<close>: the message does not contain \<open>xyz\<close>, and
  the response is the one that a rejected PDF file gets.\<close>
theorem unsupported_error_names_no_extension:
  "file_extension (u ''resume.xyz'') = u ''xyz'' \<and>
   extractTextFromUpload blank_env (u ''resume.xyz'') (u ''some text'') =
     Inl (Error (u ''Unsupported file type.'')) \<and>
   \<not> str_in (u ''xyz'') (u ''Unsupported file type.'') \<and>
   extractTextFromUpload failing_env (u ''resume.pdf'') (u ''some text'') =
     Inl (Error (u ''Invalid PDF structure'')) \<and>
   handler xyz_env xyz_event = jsonResponse 400 (ErrorBody (u ''Unable to read file.'')) \<and>
   handler corrupt_env xyz_event = jsonResponse 400 (ErrorBody (u ''Unable to read file.''))"
proof -
  have "file_extension (u ''resume.xyz'') = u ''xyz''"
    and "extractTextFromUpload blank_env (u ''resume.xyz'') (u ''some text'') =
           Inl (Error (u ''Unsupported file type.''))"
    and "\<not> str_in (u ''xyz'') (u ''Unsupported file type.'')"
    by (simp_all add: extractTextFromUpload_def eval_extension)
  moreover have "extractTextFromUpload failing_env (u ''resume.pdf'') (u ''some text'') =
      Inl (Error (u ''Invalid PDF structure''))"
    by (simp add: extractTextFromUpload_def failing_env_def eval_extension)
  moreover have "handler xyz_env xyz_event = jsonResponse 400 (ErrorBody (u ''Unable to read file.''))"
    by (simp add: eval_handler)
  moreover have "handler corrupt_env xyz_event = jsonResponse 400 (ErrorBody (u ''Unable to read file.''))"
    by (simp add: eval_handler)
  ultimately show ?thesis by blast
qed




text \<open>The Python endpoint turns its own 400 for an unknown ending into a 500.\<close>
lemma upload_resume_unsupported:
  assumes "\<not> str_endswith file_name (u ''.pdf'')" and "\<not> str_endswith file_name (u ''.docx'')"
    and "\<not> str_endswith file_name (u ''.txt'')"
  shows "upload_resume env file_name buf = Inl (HTTPException 500 (u ''Failed to parse resume''))"
  using assms by (simp add: upload_resume_def)

end
